theory Spec2Isabelle
  imports Complex_Main "HOL-Library.AList" "HOL-Library.Sublist"
begin

section \<open>Python values used by the agents\<close>

text \<open>
  Python text is modelled as \<^typ>\<open>string\<close>: one \<^typ>\<open>char\<close> per code point, for the
  code points 0 to 255. The character classes below are the ones CPython uses on that
  range (\<open>str.isspace\<close>, \<open>str.lower\<close>, \<open>str.title\<close>, the \<open>\w\<close> class of \<open>re\<close>).
  Emoji in the messages of the source lie outside that range and are written as their
  names between colons. Wall-clock readings (\<open>time.time()\<close>) are real numbers that the
  caller passes in.
\<close>

definition ord :: "char \<Rightarrow> nat" where
  "ord c = of_char c"

definition chr :: "nat \<Rightarrow> char" where
  "chr n = char_of n"

definition py_isspace :: "char \<Rightarrow> bool" where
  "py_isspace c =
     (let n = ord c in (9 \<le> n \<and> n \<le> 13) \<or> (28 \<le> n \<and> n \<le> 32) \<or> n = 133 \<or> n = 160)"

definition py_isupper :: "char \<Rightarrow> bool" where
  "py_isupper c = (let n = ord c in (65 \<le> n \<and> n \<le> 90) \<or> (192 \<le> n \<and> n \<le> 222 \<and> n \<noteq> 215))"

definition py_islower :: "char \<Rightarrow> bool" where
  "py_islower c =
     (let n = ord c in (97 \<le> n \<and> n \<le> 122) \<or> n = 170 \<or> n = 181 \<or> n = 186
        \<or> (223 \<le> n \<and> n \<le> 255 \<and> n \<noteq> 247))"

definition py_lower_char :: "char \<Rightarrow> char" where
  "py_lower_char c = (if py_isupper c then chr (ord c + 32) else c)"

text \<open>
  \<open>str.upper\<close> sends three characters of the range out of it (\<open>0xB5\<close>, \<open>0xDF\<close>,
  \<open>0xFF\<close>); the model leaves those three unchanged.
\<close>

definition py_upper_char :: "char \<Rightarrow> char" where
  "py_upper_char c =
     (let n = ord c in
      if (97 \<le> n \<and> n \<le> 122) \<or> (224 \<le> n \<and> n \<le> 254 \<and> n \<noteq> 247) then chr (n - 32) else c)"

definition py_lower :: "string \<Rightarrow> string" where
  "py_lower s = map py_lower_char s"

text \<open>\<open>str.title\<close>: a letter that follows a cased letter is lowered, any other is raised.\<close>

fun title_from :: "bool \<Rightarrow> string \<Rightarrow> string" where
  "title_from prev [] = []"
| "title_from prev (c # cs) =
     (if prev then py_lower_char c else py_upper_char c)
       # title_from (py_isupper c \<or> py_islower c) cs"

definition py_title :: "string \<Rightarrow> string" where
  "py_title s = title_from False s"

text \<open>\<open>str.strip()\<close> and \<open>str.split()\<close> with no argument.\<close>

definition py_strip :: "string \<Rightarrow> string" where
  "py_strip s = rev (dropWhile py_isspace (rev (dropWhile py_isspace s)))"

fun split_from :: "string \<Rightarrow> string \<Rightarrow> string list" where
  "split_from w [] = (if w = [] then [] else [w])"
| "split_from w (c # cs) =
     (if py_isspace c then (if w = [] then split_from [] cs else w # split_from [] cs)
      else split_from (w @ [c]) cs)"

definition py_split :: "string \<Rightarrow> string list" where
  "py_split s = split_from [] s"

text \<open>\<open>sep.join(xs)\<close>, the \<open>in\<close> test on strings, and the decimal form of an integer.\<close>

fun py_join :: "string \<Rightarrow> string list \<Rightarrow> string" where
  "py_join sep [] = []"
| "py_join sep [x] = x"
| "py_join sep (x # y # ys) = x @ sep @ py_join sep (y # ys)"

fun py_contains :: "string \<Rightarrow> string \<Rightarrow> bool" where
  "py_contains k [] = (k = [])"
| "py_contains k (c # cs) = (prefix k (c # cs) \<or> py_contains k cs)"

fun str_nat :: "nat \<Rightarrow> string" where
  "str_nat n = (if n < 10 then [chr (48 + n)] else str_nat (n div 10) @ [chr (48 + n mod 10)])"

declare str_nat.simps [simp del]

definition str_int :: "int \<Rightarrow> string" where
  "str_int i = (if i < 0 then CHR ''-'' # str_nat (nat (- i)) else str_nat (nat i))"

definition nl :: string where
  "nl = [CHR 0x0A]"

text \<open>
  A \<open>dict\<close> is an association list with distinct keys in insertion order:
  \<^const>\<open>AList.update\<close> replaces the value of a present key where it stands and appends an
  absent one, as \<open>d[k] = v\<close> does; \<^const>\<open>AList.delete\<close> is \<open>del d[k]\<close> on a present key.
\<close>

datatype py_error = IndexError | AttributeError

section \<open>Round-robin agent selection (agentkit/discovery.py)\<close>

record runbook =
  rb_agent_name :: string
  rb_role :: string
  rb_capabilities :: "string list"

text \<open>
  The fields of \<open>AgentDiscovery\<close>. \<open>d_last_assigned_agent_index\<close> is \<open>None\<close> until
  \<open>find_agent_for_task\<close> creates the attribute.
\<close>

record discovery =
  d_agent_name :: string
  d_available_agents :: "(string \<times> runbook) list"
  d_last_assigned_agent_index :: "nat option"

text \<open>
  \<open>discover_agents\<close>: the argument \<open>fetch\<close> is the orchestrator's answer, \<open>None\<close> for a
  status other than 200 or a failed request (the agents known so far are kept and the
  empty dict is returned), \<open>Some\<close> of the runbooks otherwise, each taken to carry the
  keys that the loop reads. The agent's own runbook is skipped.
\<close>

definition discover_agents ::
  "runbook list option \<Rightarrow> discovery \<Rightarrow> (string \<times> runbook) list \<times> discovery" where
  "discover_agents fetch d =
     (case fetch of
        None \<Rightarrow> ([], d)
      | Some runbooks_data \<Rightarrow>
          let agents = fold (\<lambda>r acc. if rb_agent_name r = d_agent_name d then acc
                                     else AList.update (rb_agent_name r) r acc)
                            runbooks_data []
          in (agents, d\<lparr>d_available_agents := agents\<rparr>))"

text \<open>
  \<open>find_agent_for_task\<close> returns the agent name (or \<open>None\<close>), or the \<open>IndexError\<close> of
  the list access, together with the object's state after the call.
\<close>

definition find_agent_for_task ::
  "runbook list option \<Rightarrow> discovery \<Rightarrow> (py_error + string option) \<times> discovery" where
  "find_agent_for_task fetch d =
     (let d1 = (if d_available_agents d = [] then snd (discover_agents fetch d) else d) in
      if d_available_agents d1 = [] then (Inr None, d1)
      else
        let d2 = (case d_last_assigned_agent_index d1 of
                    None \<Rightarrow> d1\<lparr>d_last_assigned_agent_index := Some 0\<rparr>
                  | Some _ \<Rightarrow> d1);
            idx = (case d_last_assigned_agent_index d2 of None \<Rightarrow> 0 | Some i \<Rightarrow> i);
            available_agent_names = map fst (d_available_agents d2)
        in if idx < length available_agent_names
           then (Inr (Some (available_agent_names ! idx)),
                 d2\<lparr>d_last_assigned_agent_index :=
                      Some ((idx + 1) mod length available_agent_names)\<rparr>)
           else (Inl IndexError, d2))"

section \<open>Startup reconciliation (orchestrator/app/agent_lifecycle.py)\<close>

record agent =
  a_name :: string
  a_status :: string
  a_pid :: "int option"

text \<open>
  \<open>kill0 p\<close> tells whether \<open>os.kill(p, 0)\<close> returns; \<open>False\<close> is the \<open>OSError\<close> that the
  loop catches. \<open>if agent.pid\<close> is false for \<open>None\<close> and for 0.
\<close>

definition reconcile_agent :: "(int \<Rightarrow> bool) \<Rightarrow> agent \<Rightarrow> agent" where
  "reconcile_agent kill0 a =
     (case a_pid a of
        None \<Rightarrow> a\<lparr>a_status := ''stopped''\<rparr>
      | Some p \<Rightarrow>
          if p \<noteq> 0 then (if kill0 p then a else a\<lparr>a_status := ''stopped'', a_pid := None\<rparr>)
          else a\<lparr>a_status := ''stopped''\<rparr>)"

definition cleanup_stale_agents :: "(int \<Rightarrow> bool) \<Rightarrow> agent list \<Rightarrow> agent list" where
  "cleanup_stale_agents kill0 db =
     map (\<lambda>a. if a_status a = ''running'' then reconcile_agent kill0 a else a) db"

section \<open>Collaboration tracking (agents/assistant/collaboration.py)\<close>

text \<open>
  \<open>task_info\<close> is the \<open>original_task\<close> dict of a response, with the keys the module
  reads; \<open>None\<close> is an absent key, so that \<open>d.get(k, default)\<close> is a case on the field.
\<close>

record task_info =
  t_task :: "string option"
  t_subtask_index :: "int option"
  t_total_subtasks :: "int option"
  t_original_query :: "string option"

record response_data =
  rd_from_agent :: string
  rd_task_result :: string
  rd_original_task :: task_info
  rd_user_topic :: "string option"

record pending_response =
  p_from_agent :: string
  p_result :: string
  p_task :: task_info
  p_user_topic :: string

record response =
  r_from_agent :: string
  r_result :: string
  r_task :: task_info

record collaboration =
  c_task :: string
  c_expected_agents :: "string list"
  c_received_responses :: "response list"
  c_user_topic :: string
  c_start_time :: real
  c_timeout :: real

text \<open>
  The two attributes of the assistant that the module creates on first use; \<open>None\<close>
  is \<open>not hasattr(self, ...)\<close>.
\<close>

record assistant =
  pending_responses :: "(string \<times> pending_response) list option"
  active_collaborations :: "(string \<times> collaboration) list option"

text \<open>
  What \<open>send_message\<close> publishes, in order: topic and text. The completion service is a
  function of the user prompt and the system prompt that returns the text or \<open>None\<close>.
  \<open>set_order\<close> is the order in which a Python \<open>set\<close> of the given distinct names
  iterates, which the language leaves open.
\<close>

type_synonym outbox = "(string \<times> string) list"

type_synonym completion = "string \<Rightarrow> string \<Rightarrow> string option"

definition get_str :: "string option \<Rightarrow> string \<Rightarrow> string" where
  "get_str v dflt = (case v of None \<Rightarrow> dflt | Some s \<Rightarrow> s)"

definition get_int :: "int option \<Rightarrow> int \<Rightarrow> int" where
  "get_int v dflt = (case v of None \<Rightarrow> dflt | Some i \<Rightarrow> i)"

definition truthy :: "string option \<Rightarrow> bool" where
  "truthy v = (case v of None \<Rightarrow> False | Some s \<Rightarrow> s \<noteq> [])"

text \<open>\<open>str.replace(old, new)\<close> for a non-empty \<open>old\<close>, the only use in the source.\<close>

function py_replace :: "string \<Rightarrow> string \<Rightarrow> string \<Rightarrow> string" where
  "py_replace old new [] = []"
| "py_replace old new (c # cs) =
     (if old \<noteq> [] \<and> prefix old (c # cs)
      then new @ py_replace old new (drop (length old) (c # cs))
      else c # py_replace old new cs)"
  by pat_completeness auto
termination
  by (relation "measure (\<lambda>(old, new, s). length s)") (auto simp: neq_Nil_conv)

definition collaboration_key :: "string \<Rightarrow> string \<Rightarrow> string" where
  "collaboration_key task reply_to = ''collaboration_'' @ task @ ''_'' @ reply_to"

text \<open>
  The end of \<open>_collaborate_with_agents\<close>: the session is stored under its key with no
  response yet, the time of the call and the timeout of 30 seconds.
\<close>

definition collaborate_with_agents_store ::
  "string \<Rightarrow> string list \<Rightarrow> string \<Rightarrow> real \<Rightarrow> assistant \<Rightarrow> assistant" where
  "collaborate_with_agents_store task available_agents reply_to now self =
     (let acs = (case active_collaborations self of None \<Rightarrow> [] | Some d \<Rightarrow> d)
      in self\<lparr>active_collaborations := Some (AList.update (collaboration_key task reply_to)
           \<lparr>c_task = task, c_expected_agents = available_agents, c_received_responses = [],
             c_user_topic = reply_to, c_start_time = now, c_timeout = 30\<rparr> acs)\<rparr>)"

definition collaboration_prompt :: "collaboration \<Rightarrow> string" where
  "collaboration_prompt collaboration =
     nl @ ''    Synthesize these agent responses into a coherent answer:'' @ nl @ nl
       @ ''    Task: '' @ c_task collaboration @ nl @ nl
       @ ''    Agent Responses:'' @ nl @ ''    ''
       @ concat (map (\<lambda>r. nl @ py_title (r_from_agent r) @ '': '' @ r_result r @ nl)
                     (c_received_responses collaboration))
       @ nl @ ''Provide a comprehensive, well-structured response combining all agent contributions.''"

definition collaboration_system_prompt :: string where
  "collaboration_system_prompt =
     ''You are an expert at synthesizing multiple perspectives into coherent, comprehensive responses.''"

definition synthesize_collaboration_responses :: "completion \<Rightarrow> collaboration \<Rightarrow> outbox" where
  "synthesize_collaboration_responses get_completion collaboration =
     (let user_topic = c_user_topic collaboration;
          responses = c_received_responses collaboration
      in if length responses \<le> 1 then []
         else
           (user_topic, '':brain: Synthesizing '' @ str_nat (length responses) @ '' agent responses...'')
           # (let synthesis_response =
                     get_completion (collaboration_prompt collaboration) collaboration_system_prompt
              in if truthy synthesis_response
                 then [(user_topic, '':dart: **Final Answer:**'' @ nl @ nl @ get_str synthesis_response [])]
                 else []))"

definition check_collaboration_completion ::
  "completion \<Rightarrow> (string list \<Rightarrow> string list) \<Rightarrow> string \<Rightarrow> string \<Rightarrow> task_info \<Rightarrow> string
     \<Rightarrow> assistant \<Rightarrow> assistant \<times> outbox" where
  "check_collaboration_completion get_completion set_order from_agent task_result original_task
       user_topic self =
     (case active_collaborations self of
        None \<Rightarrow> (self, [])
      | Some acs \<Rightarrow>
          let task_description = get_str (t_task original_task) [];
              key = collaboration_key task_description user_topic
          in (case map_of acs key of
               None \<Rightarrow> (self, [])
             | Some stored \<Rightarrow>
                 let collaboration = stored\<lparr>c_received_responses := c_received_responses stored
                        @ [\<lparr>r_from_agent = from_agent, r_result = task_result,
                            r_task = original_task\<rparr>]\<rparr>;
                     acs1 = AList.update key collaboration acs;
                     expected_agents = c_expected_agents collaboration;
                     received_agents = map r_from_agent (c_received_responses collaboration)
                 in if set expected_agents \<subseteq> set received_agents
                    then
                      let sent = map (\<lambda>r. (user_topic, ''**'' @ py_title (r_from_agent r) @ '':**''
                                               @ nl @ nl @ r_result r))
                                     (c_received_responses collaboration)
                            @ [(user_topic, '':check: Received responses from: ''
                                  @ py_join '', '' (set_order (remdups received_agents))),
                               (user_topic, '':clipboard: Collaboration complete!'')];
                          self1 = self\<lparr>active_collaborations := Some (AList.delete key acs1)\<rparr>
                      in if length (c_received_responses collaboration) > 1
                         then (self1, sent @ synthesize_collaboration_responses get_completion collaboration)
                         else (self1, sent)
                    else
                      (self\<lparr>active_collaborations := Some acs1\<rparr>,
                       [(user_topic, '':hourglass: Still waiting for: ''
                           @ py_join '', '' (set_order (remdups
                               (filter (\<lambda>a. a \<notin> set received_agents) expected_agents))))])))"

text \<open>
  One round of the loop of \<open>_cleanup_timed_out_collaborations\<close> for a session that has
  timed out: what is sent for it.
\<close>

definition timed_out_messages :: "completion \<Rightarrow> collaboration \<Rightarrow> outbox" where
  "timed_out_messages get_completion collaboration =
     (let user_topic = c_user_topic collaboration;
          received_count = length (c_received_responses collaboration)
      in if received_count > 0
         then (user_topic, '':alarm_clock: Collaboration timed out! Processing ''
                  @ str_nat received_count @ '' received response''
                  @ (if received_count > 1 then ''s'' else []) @ ''...'')
              # (if received_count > 1
                 then synthesize_collaboration_responses get_completion collaboration
                 else (case c_received_responses collaboration of
                         [] \<Rightarrow> []
                       | response # _ \<Rightarrow>
                           [(user_topic, '':clipboard: **Response from ''
                               @ py_title (r_from_agent response) @ '':**'' @ nl @ nl
                               @ r_result response)]))
         else [(user_topic, '':alarm_clock: Collaboration timed out with no responses received.'')])"

fun timed_out_scan ::
  "completion \<Rightarrow> real \<Rightarrow> (string \<times> collaboration) list \<Rightarrow> string list \<times> outbox" where
  "timed_out_scan get_completion current_time [] = ([], [])"
| "timed_out_scan get_completion current_time ((key, collaboration) # rest) =
     (let (timed_out_keys, sent) = timed_out_scan get_completion current_time rest
      in if current_time - c_start_time collaboration > c_timeout collaboration
         then (key # timed_out_keys, timed_out_messages get_completion collaboration @ sent)
         else (timed_out_keys, sent))"

definition cleanup_timed_out_collaborations ::
  "completion \<Rightarrow> real \<Rightarrow> assistant \<Rightarrow> assistant \<times> outbox" where
  "cleanup_timed_out_collaborations get_completion current_time self =
     (case active_collaborations self of
        None \<Rightarrow> (self, [])
      | Some acs \<Rightarrow>
          let (timed_out_keys, sent) = timed_out_scan get_completion current_time acs
          in (self\<lparr>active_collaborations := Some (fold AList.delete timed_out_keys acs)\<rparr>, sent))"

definition stored_original_query :: "pending_response \<Rightarrow> string" where
  "stored_original_query p = get_str (t_original_query (p_task p)) []"

definition synthesis_prompt :: "string \<Rightarrow> (string \<times> pending_response) list \<Rightarrow> string" where
  "synthesis_prompt original_query task_responses =
     nl @ ''    Synthesize these agent responses into a concise, well-structured answer:'' @ nl @ nl
       @ ''    Original Task: '' @ original_query @ nl @ nl
       @ ''    Agent Contributions:'' @ nl @ ''    ''
       @ concat (map (\<lambda>(k, p). nl @ py_title (p_from_agent p) @ '': '' @ p_result p @ nl)
                     task_responses)
       @ nl @ ''Create a comprehensive, well-structured final response that combines all agent contributions. Include detailed analysis, key insights, and actionable recommendations. Use proper markdown formatting with headers, lists, and emphasis where appropriate.''"

definition synthesis_system_prompt :: string where
  "synthesis_system_prompt =
     ''You are an expert synthesis specialist who creates comprehensive, detailed responses from multiple agent contributions. You excel at combining diverse perspectives into cohesive, well-structured analyses with clear insights and actionable recommendations.''"

text \<open>
  \<open>_synthesize_responses\<close> reads \<open>self.pending_responses\<close> without a \<open>hasattr\<close>
  test, so an assistant without the attribute raises \<open>AttributeError\<close>.
\<close>

definition synthesize_responses ::
  "completion \<Rightarrow> string \<Rightarrow> assistant \<Rightarrow> py_error + assistant \<times> outbox" where
  "synthesize_responses get_completion original_query self =
     (case pending_responses self of
        None \<Rightarrow> Inl AttributeError
      | Some pending \<Rightarrow>
          let task_responses = filter (\<lambda>(k, p). stored_original_query p = original_query) pending
          in (case task_responses of
               [] \<Rightarrow> Inr (self, [])
             | first_response # _ \<Rightarrow>
                 let unique_agents = remdups (filter (\<lambda>a. a \<noteq> [])
                                        (map (\<lambda>(k, p). p_from_agent p) task_responses));
                     num_agents = length unique_agents;
                     user_topic = p_user_topic (snd first_response);
                     synthesis_response =
                       get_completion (synthesis_prompt original_query task_responses)
                         synthesis_system_prompt;
                     sent = (user_topic, '':dart: All agents completed! :brain: Synthesizing ''
                               @ str_nat num_agents @ '' agent responses into final answer...'')
                       # (if truthy synthesis_response
                          then [(user_topic, py_replace ''. '' (''.'' @ nl) (get_str synthesis_response [])),
                                (user_topic, '':tada: **Complete!** '' @ str_nat num_agents
                                   @ '' agents collaborated successfully.'')]
                          else [(user_topic, ''I received responses from multiple agents but couldn't synthesize them properly.'')])
                 in Inr (self\<lparr>pending_responses :=
                            Some (filter (\<lambda>(k, p). stored_original_query p \<noteq> original_query) pending)\<rparr>,
                         sent)))"

definition stored_index :: "pending_response \<Rightarrow> int" where
  "stored_index p = get_int (t_subtask_index (p_task p)) (- 1)"

text \<open>
  The first counting loop of \<open>_handle_agent_response\<close>, which looks for the inbound
  task and index among the stored responses; its result is not read afterwards.
\<close>

definition completed_responses :: "(string \<times> pending_response) list \<Rightarrow> string \<Rightarrow> int \<Rightarrow> nat" where
  "completed_responses pending current_task subtask_index =
     (if \<exists>(k, p) \<in> set pending. get_str (t_task (p_task p)) [] = current_task
                                   \<and> stored_index p = subtask_index
      then 1 else 0)"

definition found_indices :: "(string \<times> pending_response) list \<Rightarrow> int list" where
  "found_indices pending = remdups (filter (\<lambda>i. i \<ge> 0) (map (\<lambda>(k, p). stored_index p) pending))"

definition find_original_query :: "(string \<times> pending_response) list \<Rightarrow> string option" where
  "find_original_query pending =
     (case filter (\<lambda>(k, p). truthy (t_original_query (p_task p))) pending of
        [] \<Rightarrow> None
      | (k, p) # _ \<Rightarrow> t_original_query (p_task p))"

definition handle_agent_response ::
  "completion \<Rightarrow> (string list \<Rightarrow> string list) \<Rightarrow> real \<Rightarrow> response_data \<Rightarrow> assistant
     \<Rightarrow> py_error + assistant \<times> outbox" where
  "handle_agent_response get_completion set_order current_time rd self =
     (let from_agent = rd_from_agent rd;
          task_result = rd_task_result rd;
          original_task = rd_original_task rd;
          user_topic = get_str (rd_user_topic rd) ''user_session:main'';
          pending0 = (case pending_responses self of None \<Rightarrow> [] | Some d \<Rightarrow> d);
          task_description = get_str (t_task original_task) [];
          task_key = task_description @ ''_'' @ str_int (get_int (t_subtask_index original_task) 0);
          pending = AList.update task_key
                      \<lparr>p_from_agent = from_agent, p_result = task_result, p_task = original_task,
                        p_user_topic = user_topic\<rparr> pending0;
          self1 = self\<lparr>pending_responses := Some pending\<rparr>;
          (self2, sent2) = check_collaboration_completion get_completion set_order from_agent
                             task_result original_task user_topic self1;
          (self3, sent3) = cleanup_timed_out_collaborations get_completion current_time self2;
          total_subtasks = get_int (t_total_subtasks original_task) 1;
          sent4 = (if total_subtasks > 1
                   then [(user_topic, '':check: '' @ py_title from_agent @ '' completed their task'')]
                   else []);
          all_subtasks_complete = (int (length (found_indices pending)) \<ge> total_subtasks)
      in if all_subtasks_complete
         then
           let original_query = (case find_original_query pending of
                                   Some q \<Rightarrow> q
                                 | None \<Rightarrow> get_str (t_task original_task) [])
           in (case synthesize_responses get_completion original_query self3 of
                 Inl e \<Rightarrow> Inl e
               | Inr (self4, sent5) \<Rightarrow> Inr (self4, sent2 @ sent3 @ sent4 @ sent5))
         else Inr (self3, sent2 @ sent3 @ sent4))"

section \<open>Task decomposition (agentkit/base.py)\<close>

text \<open>
  A subtask dict. The keys \<open>agent_type\<close>, \<open>priority\<close> and \<open>dependencies\<close> are absent
  from the dict returned without an AI client, which carries \<open>agent\<close> (\<open>None\<close>) and
  \<open>reasoning\<close> instead.
\<close>

record subtask =
  st_task :: string
  st_agent_type :: "string option"
  st_priority :: "int option"
  st_dependencies :: "nat list option"
  st_reasoning :: "string option"

text \<open>
  The outcome of \<open>json.loads\<close>: the parsed list, the \<open>JSONDecodeError\<close> of a text
  that is not JSON, or any other exception, which the outer handler catches.
\<close>

datatype json_result = Parsed "subtask list" | JSONDecodeError | OtherException

definition full_subtask :: "string \<Rightarrow> string \<Rightarrow> int \<Rightarrow> nat list \<Rightarrow> subtask" where
  "full_subtask task agent_type priority dependencies =
     \<lparr>st_task = task, st_agent_type = Some agent_type, st_priority = Some priority,
       st_dependencies = Some dependencies, st_reasoning = None\<rparr>"

definition get_agent_capability_name :: "(string \<times> runbook) list \<Rightarrow> string \<Rightarrow> string" where
  "get_agent_capability_name available_agents agent_name =
     (case map_of available_agents agent_name of
        None \<Rightarrow> ''general''
      | Some agent_runbook \<Rightarrow>
          (case rb_capabilities agent_runbook of
             [] \<Rightarrow> ''general''
           | capability_name # _ \<Rightarrow> py_lower (py_replace '' '' ''_'' capability_name)))"

definition complex_keywords :: "string list" where
  "complex_keywords = [''research'', ''analyze'', ''strategy'', ''future'', ''development'',
     ''comprehensive'', ''explore'', ''investigate'']"

definition has_complex_keywords :: "string \<Rightarrow> bool" where
  "has_complex_keywords complex_task =
     (\<exists>keyword \<in> set complex_keywords. py_contains keyword (py_lower complex_task))"

text \<open>
  \<open>if not self.available_agents: self.discover_agents()\<close>; \<open>discovered\<close> is the dict
  that the discovery returns and that the agent then keeps.
\<close>

definition ensure_agents ::
  "(string \<times> runbook) list \<Rightarrow> (string \<times> runbook) list \<Rightarrow> (string \<times> runbook) list" where
  "ensure_agents discovered available_agents =
     (if available_agents = [] then discovered else available_agents)"

definition two_subtasks :: "(string \<times> runbook) list \<Rightarrow> string \<Rightarrow> subtask list" where
  "two_subtasks agents complex_task =
     (let available_agents = map fst agents;
          (agent1_cap, agent2_cap) =
            (if length available_agents \<ge> 2
             then (get_agent_capability_name agents (available_agents ! 0),
                   get_agent_capability_name agents (available_agents ! 1))
             else (''research'', ''creative''))
      in [full_subtask (''Research and gather information about: '' @ take 50 complex_task @ ''...'')
            agent1_cap 5 [],
          full_subtask (''Create comprehensive response for: '' @ take 50 complex_task @ ''...'')
            agent2_cap 4 [0]])"

definition three_subtask_list :: "string \<Rightarrow> string \<Rightarrow> string \<Rightarrow> string \<Rightarrow> subtask list" where
  "three_subtask_list agent1_cap agent2_cap agent3_cap complex_task =
     [full_subtask (''Research and gather information about: '' @ take 50 complex_task @ ''...'')
        agent1_cap 5 [],
      full_subtask (''Create content based on: '' @ take 50 complex_task @ ''...'')
        agent2_cap 4 [0],
      full_subtask (''Review and improve the content for: '' @ take 50 complex_task @ ''...'')
        agent3_cap 3 [1]]"

definition three_subtasks :: "(string \<times> runbook) list \<Rightarrow> string \<Rightarrow> subtask list" where
  "three_subtasks agents complex_task =
     (let available_agents = map fst agents;
          (agent1_cap, agent2_cap, agent3_cap) =
            (if length available_agents \<ge> 3
             then (get_agent_capability_name agents (available_agents ! 0),
                   get_agent_capability_name agents (available_agents ! 1),
                   get_agent_capability_name agents (available_agents ! 2))
             else if length available_agents \<ge> 2
             then (get_agent_capability_name agents (available_agents ! 0),
                   get_agent_capability_name agents (available_agents ! 1),
                   get_agent_capability_name agents (available_agents ! 1))
             else (''research'', ''creative'', ''review''))
      in three_subtask_list agent1_cap agent2_cap agent3_cap complex_task)"

text \<open>The block of the outer exception handler, which has no case for three agents.\<close>

definition three_subtasks_on_error :: "(string \<times> runbook) list \<Rightarrow> string \<Rightarrow> subtask list" where
  "three_subtasks_on_error agents complex_task =
     (let available_agents = map fst agents;
          (agent1_cap, agent2_cap, agent3_cap) =
            (if length available_agents \<ge> 2
             then (get_agent_capability_name agents (available_agents ! 0),
                   get_agent_capability_name agents (available_agents ! 1),
                   get_agent_capability_name agents (available_agents ! 1))
             else (''research'', ''creative'', ''review''))
      in three_subtask_list agent1_cap agent2_cap agent3_cap complex_task)"

text \<open>
  \<open>decompose_task\<close>. \<open>ai\<close> tells whether the agent has an AI client; \<open>result\<close> is what
  \<open>get_completion\<close> returns for the decomposition prompt (\<open>None\<close> when the service is
  unreachable or fails); \<open>json_loads\<close> is the parser. The function returns the subtasks
  and the agent's \<open>available_agents\<close> after the call.
\<close>

definition decompose_task ::
  "bool \<Rightarrow> string option \<Rightarrow> (string \<Rightarrow> json_result) \<Rightarrow> (string \<times> runbook) list
     \<Rightarrow> (string \<times> runbook) list \<Rightarrow> string \<Rightarrow> subtask list \<times> (string \<times> runbook) list" where
  "decompose_task ai result json_loads discovered available_agents complex_task =
     (if \<not> ai
      then ([\<lparr>st_task = complex_task, st_agent_type = None, st_priority = None,
               st_dependencies = None, st_reasoning = Some ''No OpenAI client available''\<rparr>],
            available_agents)
      else
        let task_length = length (py_split complex_task);
            agents = ensure_agents discovered available_agents
        in if truthy result
           then (case json_loads (get_str result []) of
                   Parsed subtasks \<Rightarrow> (subtasks, available_agents)
                 | JSONDecodeError \<Rightarrow>
                     if task_length < 8 \<and> \<not> has_complex_keywords complex_task
                     then ([full_subtask complex_task ''general'' 5 []], available_agents)
                     else if task_length < 15 \<or> has_complex_keywords complex_task
                     then (two_subtasks agents complex_task, agents)
                     else (three_subtasks agents complex_task, agents)
                 | OtherException \<Rightarrow>
                     if task_length < 10
                     then ([full_subtask complex_task ''general'' 5 []], available_agents)
                     else (three_subtasks_on_error agents complex_task, agents))
           else if task_length < 10
           then ([full_subtask (''Handle this request: '' @ complex_task) ''general'' 5 []],
                 available_agents)
           else if task_length < 20
           then (two_subtasks agents complex_task, agents)
           else (three_subtasks agents complex_task, agents))"

section \<open>Mention extraction (orchestrator/app/routing.py)\<close>

text \<open>The class \<open>\w\<close> of \<open>re\<close> on text: letters, digits (also the superscript and fraction
  digits of the range) and the underscore.\<close>

definition is_word :: "char \<Rightarrow> bool" where
  "is_word c =
     (let n = ord c in
        (48 \<le> n \<and> n \<le> 57) \<or> (65 \<le> n \<and> n \<le> 90) \<or> n = 95 \<or> (97 \<le> n \<and> n \<le> 122)
        \<or> n = 170 \<or> n = 178 \<or> n = 179 \<or> n = 181 \<or> n = 185 \<or> n = 186
        \<or> (188 \<le> n \<and> n \<le> 190) \<or> (192 \<le> n \<and> n \<le> 214) \<or> (216 \<le> n \<and> n \<le> 246)
        \<or> (248 \<le> n \<and> n \<le> 255))"

definition after_word :: "char option \<Rightarrow> bool" where
  "after_word prev = (case prev of None \<Rightarrow> False | Some p \<Rightarrow> is_word p)"

text \<open>
  The match of \<open>(?<!\w)@(\w+)(?!\.)\<close> at the head of a text that follows the character
  \<open>prev\<close>: the number of characters of the name. \<open>\w+\<close> first takes the whole run of
  word characters; when a dot follows, the matcher gives one character back, and the
  lookahead then sees that last word character, so the match succeeds with the run
  shortened by one, unless the run has a single character.
\<close>

definition mention_length :: "char option \<Rightarrow> string \<Rightarrow> nat option" where
  "mention_length prev s =
     (case s of
        [] \<Rightarrow> None
      | c # cs \<Rightarrow>
          if c = CHR ''@'' \<and> \<not> after_word prev
          then (let n = length (takeWhile is_word cs)
                in if n = 0 then None
                   else if take 1 (drop n cs) \<noteq> ''.'' then Some n
                   else if n \<ge> 2 then Some (n - 1)
                   else None)
          else None)"

text \<open>\<open>re.findall\<close>: the names of the matches from left to right, none overlapping.\<close>

function findall_mentions :: "char option \<Rightarrow> string \<Rightarrow> string list" where
  "findall_mentions prev [] = []"
| "findall_mentions prev (c # cs) =
     (case mention_length prev (c # cs) of
        None \<Rightarrow> findall_mentions (Some c) cs
      | Some n \<Rightarrow> take n cs # findall_mentions (Some (last (c # take n cs))) (drop n cs))"
  by pat_completeness auto
termination
  by (relation "measure (\<lambda>(prev, s). length s)") auto

text \<open>
  The match of \<open>(?<!\w)@(?:name1|name2|...)(?!\.)\<close> under \<open>re.IGNORECASE\<close> at the
  head of a text: the first name of the list that the text continues with, letter case
  apart, and that no dot follows.
\<close>

definition valid_mention_length :: "string list \<Rightarrow> char option \<Rightarrow> string \<Rightarrow> nat option" where
  "valid_mention_length agent_names prev s =
     (case s of
        [] \<Rightarrow> None
      | c # cs \<Rightarrow>
          if c = CHR ''@'' \<and> \<not> after_word prev
          then (case filter (\<lambda>name. py_lower (take (length name) cs) = py_lower name
                                     \<and> take 1 (drop (length name) cs) \<noteq> ''.'') agent_names of
                  [] \<Rightarrow> None
                | name # _ \<Rightarrow> Some (length name))
          else None)"

text \<open>\<open>re.sub(valid_pattern, '', message)\<close>.\<close>

function sub_valid_mentions :: "string list \<Rightarrow> char option \<Rightarrow> string \<Rightarrow> string" where
  "sub_valid_mentions agent_names prev [] = []"
| "sub_valid_mentions agent_names prev (c # cs) =
     (case valid_mention_length agent_names prev (c # cs) of
        None \<Rightarrow> c # sub_valid_mentions agent_names (Some c) cs
      | Some n \<Rightarrow> sub_valid_mentions agent_names (Some (last (c # take n cs))) (drop n cs))"
  by pat_completeness auto
termination
  by (relation "measure (\<lambda>(agent_names, prev, s). length s)") auto

text \<open>
  \<open>extract_mentions\<close>; \<open>db_agents\<close> are the names of the agents in the database at the
  time of the call.
\<close>

definition extract_mentions :: "string list \<Rightarrow> string \<Rightarrow> string list \<times> string" where
  "extract_mentions db_agents message =
     (let matches = findall_mentions None message
      in if matches \<noteq> []
         then
           let registered_agents = set (map py_lower db_agents);
               agent_names = fold (\<lambda>name acc.
                                 let name_lower = py_lower name
                                 in if name_lower \<notin> set acc \<and> name_lower \<in> registered_agents
                                    then acc @ [name_lower] else acc) matches []
           in if agent_names \<noteq> []
              then (agent_names, py_strip (sub_valid_mentions agent_names None message))
              else ([], message)
         else ([], message))"

section \<open>Duplicate suppression (agents/worker_agent.py)\<close>

record chat_message =
  cm_role :: string
  cm_content :: string

text \<open>
  The keys of a natural-conversation message that the handler reads before it answers;
  \<open>None\<close> is an absent key.
\<close>

record conversation_data =
  cd_from_agent :: string
  cd_messages :: "chat_message list option"
  cd_message :: "string option"
  cd_context :: "string option"
  cd_timestamp :: "real option"

record worker =
  w_startup_time :: real
  w_recent_messages :: "(int \<times> real) list option"

datatype handled = Ignored_old | Ignored_duplicate | Processed

definition extract_message :: "conversation_data \<Rightarrow> string" where
  "extract_message cd =
     (case cd_messages cd of
        Some messages_array \<Rightarrow>
          (let message = (case filter (\<lambda>msg. cm_role msg = ''user'') (rev messages_array) of
                            [] \<Rightarrow> []
                          | msg # _ \<Rightarrow> cm_content msg)
           in if message = [] \<and> messages_array \<noteq> []
              then cm_content (last messages_array) else message)
      | None \<Rightarrow> get_str (cd_message cd) [])"

definition dedup_text :: "conversation_data \<Rightarrow> string" where
  "dedup_text cd =
     py_lower (py_strip (cd_from_agent cd @ extract_message cd @ get_str (cd_context cd) []))"

text \<open>\<open>min(d.keys(), key=d.get)\<close>: the first key, in the order of the dict, whose value
  is least.\<close>

fun min_entry :: "int \<times> real \<Rightarrow> (int \<times> real) list \<Rightarrow> int \<times> real" where
  "min_entry best [] = best"
| "min_entry best (kv # rest) = min_entry (if snd kv < snd best then kv else best) rest"

definition oldest_key :: "(int \<times> real) list \<Rightarrow> int" where
  "oldest_key d = (case d of [] \<Rightarrow> 0 | kv # rest \<Rightarrow> fst (min_entry kv rest))"

text \<open>
  \<open>_handle_natural_conversation\<close> up to the point where the answer is produced:
  \<open>py_hash\<close> is the built-in \<open>hash\<close> on strings, \<open>current_time\<close> the reading of the
  clock. The result tells whether the message went on to be answered.
\<close>

definition handle_natural_conversation ::
  "(string \<Rightarrow> int) \<Rightarrow> real \<Rightarrow> conversation_data \<Rightarrow> worker \<Rightarrow> handled \<times> worker" where
  "handle_natural_conversation py_hash current_time cd self =
     (let timestamp = (case cd_timestamp cd of None \<Rightarrow> 0 | Some t \<Rightarrow> t)
      in if timestamp > 0 \<and> timestamp < w_startup_time self then (Ignored_old, self)
         else
           let message_hash = py_hash (dedup_text cd);
               recent = (case w_recent_messages self of None \<Rightarrow> [] | Some d \<Rightarrow> d)
           in if (case map_of recent message_hash of
                    None \<Rightarrow> False
                  | Some last_seen \<Rightarrow> current_time - last_seen < 5)
              then (Ignored_duplicate, self\<lparr>w_recent_messages := Some recent\<rparr>)
              else
                let recent1 = AList.update message_hash current_time recent;
                    recent2 = (if length recent1 > 50
                               then AList.delete (oldest_key recent1) recent1 else recent1)
                in (Processed, self\<lparr>w_recent_messages := Some recent2\<rparr>))"

fun run_conversations ::
  "(string \<Rightarrow> int) \<Rightarrow> (real \<times> conversation_data) list \<Rightarrow> worker \<Rightarrow> handled list \<times> worker" where
  "run_conversations py_hash [] self = ([], self)"
| "run_conversations py_hash ((current_time, cd) # rest) self =
     (let (h, self1) = handle_natural_conversation py_hash current_time cd self;
          (hs, self2) = run_conversations py_hash rest self1
      in (h # hs, self2))"

text \<open>
  The invariant of the cache at clock reading \<open>now\<close>: distinct keys, at most 50
  entries, no last-seen time later than \<open>now\<close>.
\<close>

definition recent_messages_ok :: "real \<Rightarrow> worker \<Rightarrow> bool" where
  "recent_messages_ok now self =
     (case w_recent_messages self of
        None \<Rightarrow> True
      | Some d \<Rightarrow> distinct (map fst d) \<and> length d \<le> 50 \<and> (\<forall>kv \<in> set d. snd kv \<le> now))"

section \<open>Example data\<close>

text \<open>A session on the task \<open>plan\<close> that expects alice and bob, and a stored response.\<close>

definition ex_task :: task_info where
  "ex_task = \<lparr>t_task = Some ''plan'', t_subtask_index = Some 0, t_total_subtasks = Some 1,
              t_original_query = None\<rparr>"

definition ex_session :: "response list \<Rightarrow> collaboration" where
  "ex_session rs = \<lparr>c_task = ''plan'', c_expected_agents = [''alice'', ''bob''],
      c_received_responses = rs, c_user_topic = ''user_session:main'', c_start_time = 0,
      c_timeout = 30\<rparr>"

definition ex_assistant :: "response list \<Rightarrow> assistant" where
  "ex_assistant rs = \<lparr>pending_responses = None,
      active_collaborations = Some [(''collaboration_plan_user_session:main'', ex_session rs)]\<rparr>"

definition ex_pending :: "(string \<times> pending_response) list" where
  "ex_pending = [(''summarise_0'',
      \<lparr>p_from_agent = ''bob'', p_result = ''old'',
        p_task = \<lparr>t_task = Some ''summarise'', t_subtask_index = Some 0,
                  t_total_subtasks = Some 1, t_original_query = None\<rparr>,
        p_user_topic = ''user_session:main''\<rparr>)]"

text \<open>
  Conversation number \<open>k\<close> from agent \<open>a\<close> has a text of \<open>k\<close> letters. The burst is
  conversation 0 at time 0, conversations 1 to 50 at time 1, and conversation 0 again at
  time 2.
\<close>

definition ex_conversation :: "nat \<Rightarrow> conversation_data" where
  "ex_conversation k = \<lparr>cd_from_agent = ''a'', cd_messages = None,
      cd_message = Some (replicate k CHR ''x''), cd_context = None, cd_timestamp = None\<rparr>"

definition ex_burst :: "(real \<times> conversation_data) list" where
  "ex_burst = (0, ex_conversation 0) # map (\<lambda>k. (1, ex_conversation k)) [1..<51]
                @ [(2, ex_conversation 0)]"

section \<open>Results\<close>

lemmas char_eval = ord_def chr_def char_of_def bit_Suc_0_iff

subsection \<open>Startup reconciliation\<close>

lemma reconcile_agent_running:
  "a_status (reconcile_agent kill0 a) = ''running'' \<Longrightarrow>
     a_status a = ''running'' \<and> (\<exists>p. a_pid a = Some p \<and> p \<noteq> 0 \<and> kill0 p) \<and>
     reconcile_agent kill0 a = a"
  by (auto simp: reconcile_agent_def split: option.splits if_splits)

text \<open>
  Claim C9. After \<open>cleanup_stale_agents\<close>, every record has kept its place and name; a
  record that was \<open>running\<close> with no pid (or pid 0, which \<open>if agent.pid\<close> treats alike),
  or with a pid whose zero-signal probe fails, is \<open>stopped\<close>; a record whose pid probes
  live, and every record that was not \<open>running\<close>, is unchanged; so every record that is
  \<open>running\<close> afterwards has a pid that probes live.
\<close>

theorem cleanup_stale_agents_reconciles:
  "length (cleanup_stale_agents kill0 db) = length db \<and>
   (\<forall>i < length db.
      let a = db ! i; a' = cleanup_stale_agents kill0 db ! i in
      a_name a' = a_name a \<and>
      (a_status a = ''running'' \<and> (a_pid a = None \<or> a_pid a = Some 0)
         \<longrightarrow> a_status a' = ''stopped'') \<and>
      (\<forall>p. a_status a = ''running'' \<and> a_pid a = Some p \<and> p \<noteq> 0 \<and> \<not> kill0 p
         \<longrightarrow> a_status a' = ''stopped'' \<and> a_pid a' = None) \<and>
      (\<forall>p. a_status a = ''running'' \<and> a_pid a = Some p \<and> p \<noteq> 0 \<and> kill0 p \<longrightarrow> a' = a) \<and>
      (a_status a \<noteq> ''running'' \<longrightarrow> a' = a) \<and>
      (a_status a' = ''running'' \<longrightarrow> (\<exists>p. a_pid a' = Some p \<and> p \<noteq> 0 \<and> kill0 p)))"
  by (auto simp: cleanup_stale_agents_def reconcile_agent_def Let_def split: option.splits)

theorem cleanup_stale_agents_reconciles_witness:
  "cleanup_stale_agents (\<lambda>p. p = 7)
     [\<lparr>a_name = ''alice'', a_status = ''running'', a_pid = Some 7\<rparr>,
      \<lparr>a_name = ''bob'', a_status = ''running'', a_pid = Some 8\<rparr>,
      \<lparr>a_name = ''carol'', a_status = ''running'', a_pid = None\<rparr>,
      \<lparr>a_name = ''dave'', a_status = ''failed'', a_pid = Some 9\<rparr>]
   = [\<lparr>a_name = ''alice'', a_status = ''running'', a_pid = Some 7\<rparr>,
      \<lparr>a_name = ''bob'', a_status = ''stopped'', a_pid = None\<rparr>,
      \<lparr>a_name = ''carol'', a_status = ''stopped'', a_pid = None\<rparr>,
      \<lparr>a_name = ''dave'', a_status = ''failed'', a_pid = Some 9\<rparr>]"
  using cleanup_stale_agents_reconciles [of "\<lambda>p. p = 7"
      "[\<lparr>a_name = ''alice'', a_status = ''running'', a_pid = Some 7\<rparr>,
        \<lparr>a_name = ''bob'', a_status = ''running'', a_pid = Some 8\<rparr>,
        \<lparr>a_name = ''carol'', a_status = ''running'', a_pid = None\<rparr>,
        \<lparr>a_name = ''dave'', a_status = ''failed'', a_pid = Some 9\<rparr>]"]
  by (simp add: cleanup_stale_agents_def reconcile_agent_def)

subsection \<open>Round-robin selection\<close>

text \<open>
  Claim C10. The selector does raise: with agents alice and bob known, the first call
  returns alice and stores index 1; a rediscovery that finds only alice shrinks the
  list; the next call reads position 1 of a one-element list, an \<open>IndexError\<close>.
\<close>

theorem find_agent_for_task_index_error:
  "(let alice = \<lparr>rb_agent_name = ''alice'', rb_role = ''r'', rb_capabilities = []\<rparr>;
        bob = \<lparr>rb_agent_name = ''bob'', rb_role = ''r'', rb_capabilities = []\<rparr>;
        d0 = \<lparr>d_agent_name = ''assistant'', d_available_agents = [],
               d_last_assigned_agent_index = None\<rparr>;
        (r1, d1) = find_agent_for_task (Some [alice, bob]) d0;
        (_, d2) = discover_agents (Some [alice]) d1;
        (r2, d3) = find_agent_for_task (Some [alice]) d2
    in r1 = Inr (Some ''alice'') \<and> d_last_assigned_agent_index d1 = Some 1 \<and>
       map fst (d_available_agents d2) = [''alice''] \<and> r2 = Inl IndexError)"
  by (simp add: find_agent_for_task_def discover_agents_def Let_def)

subsection \<open>Collaboration tracking\<close>

lemma map_of_fold_delete:
  "map_of (fold AList.delete ks al) k = (if k \<in> set ks then None else map_of al k)"
  by (induction ks arbitrary: al) (auto simp: delete_conv')

lemma timed_out_scan_keys:
  "fst (timed_out_scan gc now acs) =
     map fst (filter (\<lambda>kc. now - c_start_time (snd kc) > c_timeout (snd kc)) acs)"
  by (induction gc now acs rule: timed_out_scan.induct) (simp_all add: Let_def case_prod_beta)

lemma timed_out_scan_sent:
  "snd (timed_out_scan gc now acs) =
     concat (map (\<lambda>kc. timed_out_messages gc (snd kc))
                 (filter (\<lambda>kc. now - c_start_time (snd kc) > c_timeout (snd kc)) acs))"
  by (induction gc now acs rule: timed_out_scan.induct) (simp_all add: Let_def case_prod_beta)

lemma timed_out_scan_sent_mem:
  assumes "(k, c) \<in> set acs" "now - c_start_time c > c_timeout c"
    "m \<in> set (timed_out_messages gc c)"
  shows "m \<in> set (snd (timed_out_scan gc now acs))"
  using assms by (auto simp: timed_out_scan_sent intro!: bexI [of _ "(k, c)"])

lemma py_title_alice: "py_title ''alice'' = ''Alice''"
  by (simp add: py_title_def py_upper_char_def py_lower_char_def py_isupper_def py_islower_def char_eval)

lemma str_nat_2: "str_nat (Suc (Suc 0)) = ''2''"
  by (simp add: str_nat.simps char_eval)

lemma str_nat_1: "str_nat (Suc 0) = ''1''"
  by (simp add: str_nat.simps char_eval)

lemma collaborate_with_agents_store_session:
  "\<exists>acs. active_collaborations
            (collaborate_with_agents_store task available_agents reply_to now self) = Some acs \<and>
         map_of acs (collaboration_key task reply_to)
           = Some \<lparr>c_task = task, c_expected_agents = available_agents,
                    c_received_responses = [], c_user_topic = reply_to, c_start_time = now,
                    c_timeout = 30\<rparr>"
  by (simp add: collaborate_with_agents_store_def update_conv')

lemma ex_store:
  "collaborate_with_agents_store ''plan'' [''alice'', ''bob''] ''user_session:main'' 0
     \<lparr>pending_responses = None, active_collaborations = None\<rparr> = ex_assistant []"
  by (simp add: collaborate_with_agents_store_def collaboration_key_def ex_assistant_def ex_session_def)

text \<open>
  Claim C1. A response whose key has no active session changes nothing and sends
  nothing. A response whose key has a session is appended to it; the session is
  completed (the message \<open>Collaboration complete!\<close> is sent) exactly when the expected
  names are contained in the set of names that have responded, and then its key is
  removed from the map, otherwise the key holds the session with the response appended;
  no other key changes; and after a completion every later response for that key leaves
  the assistant as it is and sends nothing.
\<close>

theorem check_collaboration_completion_containment:
  assumes acs: "active_collaborations self = Some acs"
  shows "case map_of acs (collaboration_key (get_str (t_task original_task) []) user_topic) of
      None \<Rightarrow>
        check_collaboration_completion gc so from_agent task_result original_task user_topic self
          = (self, [])
    | Some stored \<Rightarrow>
        (\<exists>self' sent acs'.
           check_collaboration_completion gc so from_agent task_result original_task user_topic self
             = (self', sent) \<and>
           active_collaborations self' = Some acs' \<and>
           (let key = collaboration_key (get_str (t_task original_task) []) user_topic;
                collaboration = stored\<lparr>c_received_responses := c_received_responses stored
                   @ [\<lparr>r_from_agent = from_agent, r_result = task_result, r_task = original_task\<rparr>]\<rparr>;
                complete = (set (c_expected_agents stored)
                              \<subseteq> set (map r_from_agent (c_received_responses collaboration)))
            in ((user_topic, '':clipboard: Collaboration complete!'') \<in> set sent \<longleftrightarrow> complete) \<and>
               map_of acs' key = (if complete then None else Some collaboration) \<and>
               (\<forall>k. k \<noteq> key \<longrightarrow> map_of acs' k = map_of acs k) \<and>
               (complete \<longrightarrow>
                  (\<forall>gc' so' from_agent' task_result' original_task' user_topic'.
                     collaboration_key (get_str (t_task original_task') []) user_topic' = key \<longrightarrow>
                     check_collaboration_completion gc' so' from_agent' task_result' original_task'
                       user_topic' self' = (self', [])))))"
  using acs
  by (auto simp: check_collaboration_completion_def Let_def update_conv' delete_conv'
      synthesize_collaboration_responses_def collaboration_key_def
      split: option.splits)

theorem check_collaboration_completion_containment_witness:
  "check_collaboration_completion (\<lambda>prompt system. None) (\<lambda>names. names) ''bob'' ''B'' ex_task
      ''user_session:main''
      (ex_assistant [\<lparr>r_from_agent = ''alice'', r_result = ''A'', r_task = ex_task\<rparr>,
                     \<lparr>r_from_agent = ''alice'', r_result = ''A2'', r_task = ex_task\<rparr>])
    = (\<lparr>pending_responses = None, active_collaborations = Some []\<rparr>,
       [(''user_session:main'', ''**Alice:**'' @ nl @ nl @ ''A''),
        (''user_session:main'', ''**Alice:**'' @ nl @ nl @ ''A2''),
        (''user_session:main'', ''**Bob:**'' @ nl @ nl @ ''B''),
        (''user_session:main'', '':check: Received responses from: alice, bob''),
        (''user_session:main'', '':clipboard: Collaboration complete!''),
        (''user_session:main'', '':brain: Synthesizing 3 agent responses...'')]) \<and>
   check_collaboration_completion (\<lambda>prompt system. None) (\<lambda>names. names) ''alice'' ''late'' ex_task
      ''user_session:main'' \<lparr>pending_responses = None, active_collaborations = Some []\<rparr>
    = (\<lparr>pending_responses = None, active_collaborations = Some []\<rparr>, [])"
  using check_collaboration_completion_containment
    [where self = "ex_assistant [\<lparr>r_from_agent = ''alice'', r_result = ''A'', r_task = ex_task\<rparr>,
                       \<lparr>r_from_agent = ''alice'', r_result = ''A2'', r_task = ex_task\<rparr>]"
       and acs = "[(''collaboration_plan_user_session:main'',
           ex_session [\<lparr>r_from_agent = ''alice'', r_result = ''A'', r_task = ex_task\<rparr>,
                       \<lparr>r_from_agent = ''alice'', r_result = ''A2'', r_task = ex_task\<rparr>])]"
       and original_task = ex_task and user_topic = "''user_session:main''"
       and gc = "\<lambda>prompt system. None" and so = "\<lambda>names. names"
       and from_agent = "''bob''" and task_result = "''B''"]
  by (simp add: ex_assistant_def ex_session_def ex_task_def check_collaboration_completion_def
      collaboration_key_def get_str_def synthesize_collaboration_responses_def truthy_def
      str_nat.simps py_title_def py_upper_char_def py_lower_char_def py_isupper_def py_islower_def
      char_eval)

text \<open>
  Claim C2, as stated, fails for two or more responses when the completion service
  returns nothing: the session is removed and only the two progress notices are sent,
  no synthesized answer.
\<close>

theorem cleanup_timed_out_collaborations_no_answer:
  "cleanup_timed_out_collaborations (\<lambda>prompt system. None) 31
     \<lparr>pending_responses = None,
      active_collaborations = Some [(''collaboration_plan_user_session:main'',
         ex_session [\<lparr>r_from_agent = ''alice'', r_result = ''A'', r_task = ex_task\<rparr>,
                     \<lparr>r_from_agent = ''alice'', r_result = ''B'', r_task = ex_task\<rparr>])]\<rparr>
   = (\<lparr>pending_responses = None, active_collaborations = Some []\<rparr>,
      [(''user_session:main'', '':alarm_clock: Collaboration timed out! Processing 2 received responses...''),
       (''user_session:main'', '':brain: Synthesizing 2 agent responses...'')])"
  by (simp add: cleanup_timed_out_collaborations_def timed_out_messages_def ex_session_def
      synthesize_collaboration_responses_def truthy_def str_nat_2)

text \<open>
  Claim C2, amended. The sweep removes every session whose age exceeds its timeout of
  30 and keeps the others. For a removed session with no response the timed-out notice
  is sent; with one response the response is sent under a header naming its agent; with
  two or more the synthesis is started, and the final answer is sent when the
  completion service returns a non-empty text.
\<close>

theorem cleanup_timed_out_collaborations_sweep:
  assumes acs: "active_collaborations self = Some acs"
    and dist: "distinct (map fst acs)"
  shows "\<exists>self' sent acs'.
     cleanup_timed_out_collaborations gc now self = (self', sent) \<and>
     active_collaborations self' = Some acs' \<and>
     (\<forall>key c. map_of acs key = Some c \<and> c_timeout c = 30 \<longrightarrow>
        (if now - c_start_time c > 30
         then map_of acs' key = None \<and>
              (case c_received_responses c of
                 [] \<Rightarrow>
                   (c_user_topic c, '':alarm_clock: Collaboration timed out with no responses received.'')
                     \<in> set sent
               | [r] \<Rightarrow>
                   (c_user_topic c, '':clipboard: **Response from '' @ py_title (r_from_agent r)
                      @ '':**'' @ nl @ nl @ r_result r) \<in> set sent
               | r # r' # rs \<Rightarrow>
                   (c_user_topic c, '':brain: Synthesizing '' @ str_nat (length (r # r' # rs))
                      @ '' agent responses...'') \<in> set sent \<and>
                   (\<forall>s. gc (collaboration_prompt c) collaboration_system_prompt = Some s \<and> s \<noteq> []
                      \<longrightarrow> (c_user_topic c, '':dart: **Final Answer:**'' @ nl @ nl @ s) \<in> set sent))
         else map_of acs' key = Some c))"
  (is "\<exists>self' sent acs'. _ \<and> _ \<and> (\<forall>key c. _ \<longrightarrow> ?outcome sent acs' key c)")
proof -
  obtain ks sent where scan: "timed_out_scan gc now acs = (ks, sent)"
    by (cases "timed_out_scan gc now acs")
  have ks: "ks = map fst (filter (\<lambda>kc. now - c_start_time (snd kc) > c_timeout (snd kc)) acs)"
    using timed_out_scan_keys [of gc now acs] scan by simp
  have sent: "sent = snd (timed_out_scan gc now acs)"
    using scan by simp
  let ?acs' = "fold AList.delete ks acs"
  let ?self' = "self\<lparr>active_collaborations := Some ?acs'\<rparr>"
  have run: "cleanup_timed_out_collaborations gc now self = (?self', sent)"
    using acs scan by (simp add: cleanup_timed_out_collaborations_def)
  have act: "active_collaborations ?self' = Some ?acs'"
    by simp
  have each: "?outcome sent ?acs' key c"
    if look: "map_of acs key = Some c" and t30: "c_timeout c = 30" for key c
  proof (cases "now - c_start_time c > 30")
    case True
    have mem: "(key, c) \<in> set acs"
      using look by (rule map_of_SomeD)
    have "key \<in> set ks"
      using mem True t30 unfolding ks by force
    then have gone: "map_of ?acs' key = None"
      by (simp add: map_of_fold_delete)
    have msgs: "m \<in> set (timed_out_messages gc c) \<Longrightarrow> m \<in> set sent" for m
      unfolding sent using mem True t30 by (intro timed_out_scan_sent_mem [of key c]) simp_all
    have "case c_received_responses c of
                 [] \<Rightarrow>
                   (c_user_topic c, '':alarm_clock: Collaboration timed out with no responses received.'')
                     \<in> set sent
               | [r] \<Rightarrow>
                   (c_user_topic c, '':clipboard: **Response from '' @ py_title (r_from_agent r)
                      @ '':**'' @ nl @ nl @ r_result r) \<in> set sent
               | r # r' # rs \<Rightarrow>
                   (c_user_topic c, '':brain: Synthesizing '' @ str_nat (length (r # r' # rs))
                      @ '' agent responses...'') \<in> set sent \<and>
                   (\<forall>s. gc (collaboration_prompt c) collaboration_system_prompt = Some s \<and> s \<noteq> []
                      \<longrightarrow> (c_user_topic c, '':dart: **Final Answer:**'' @ nl @ nl @ s) \<in> set sent)"
      by (auto split: list.splits intro!: msgs
          simp: timed_out_messages_def synthesize_collaboration_responses_def Let_def truthy_def
            get_str_def)
    with gone True show ?thesis by simp
  next
    case False
    have "key \<notin> set ks"
    proof
      assume "key \<in> set ks"
      then obtain c' where c': "(key, c') \<in> set acs" "now - c_start_time c' > c_timeout c'"
        unfolding ks by auto
      from dist c'(1) have "map_of acs key = Some c'" by simp
      with look have "c' = c" by simp
      with c'(2) t30 False show False by simp
    qed
    then have "map_of ?acs' key = Some c"
      using look by (simp add: map_of_fold_delete)
    with False show ?thesis by simp
  qed
  then have all: "\<forall>key c. map_of acs key = Some c \<and> c_timeout c = 30 \<longrightarrow> ?outcome sent ?acs' key c"
    by blast
  show ?thesis
    by (rule exI [of _ ?self'], rule exI [of _ sent], rule exI [of _ ?acs'], intro conjI)
       (rule run, rule act, rule all)
qed

theorem cleanup_timed_out_collaborations_sweep_witness:
  "\<exists>self' sent acs'.
     cleanup_timed_out_collaborations (\<lambda>prompt system. Some ''both'') 31
       (ex_assistant [\<lparr>r_from_agent = ''alice'', r_result = ''A'', r_task = ex_task\<rparr>])
       = (self', sent) \<and>
     active_collaborations self' = Some acs' \<and>
     map_of acs' ''collaboration_plan_user_session:main'' = None \<and>
     (''user_session:main'', '':clipboard: **Response from Alice:**'' @ nl @ nl @ ''A'') \<in> set sent"
proof -
  let ?c = "ex_session [\<lparr>r_from_agent = ''alice'', r_result = ''A'', r_task = ex_task\<rparr>]"
  let ?acs = "[(''collaboration_plan_user_session:main'', ?c)]"
  have a: "active_collaborations
             (ex_assistant [\<lparr>r_from_agent = ''alice'', r_result = ''A'', r_task = ex_task\<rparr>])
           = Some ?acs"
    by (simp add: ex_assistant_def)
  have d: "distinct (map fst ?acs)"
    by simp
  have look: "map_of ?acs ''collaboration_plan_user_session:main'' = Some ?c \<and> c_timeout ?c = 30"
    by (simp add: ex_session_def)
  from cleanup_timed_out_collaborations_sweep [OF a d, of "\<lambda>prompt system. Some ''both''" 31]
  obtain self' sent acs' where
    run: "cleanup_timed_out_collaborations (\<lambda>prompt system. Some ''both'') 31
       (ex_assistant [\<lparr>r_from_agent = ''alice'', r_result = ''A'', r_task = ex_task\<rparr>])
       = (self', sent)"
    and act: "active_collaborations self' = Some acs'"
    and all: "\<And>key c. map_of ?acs key = Some c \<and> c_timeout c = 30 \<Longrightarrow>
        (if 31 - c_start_time c > 30
         then map_of acs' key = None \<and>
              (case c_received_responses c of
                 [] \<Rightarrow>
                   (c_user_topic c, '':alarm_clock: Collaboration timed out with no responses received.'')
                     \<in> set sent
               | [r] \<Rightarrow>
                   (c_user_topic c, '':clipboard: **Response from '' @ py_title (r_from_agent r)
                      @ '':**'' @ nl @ nl @ r_result r) \<in> set sent
               | r # r' # rs \<Rightarrow>
                   (c_user_topic c, '':brain: Synthesizing '' @ str_nat (length (r # r' # rs))
                      @ '' agent responses...'') \<in> set sent \<and>
                   (\<forall>s. (\<lambda>prompt system. Some ''both'') (collaboration_prompt c) collaboration_system_prompt = Some s \<and> s \<noteq> []
                      \<longrightarrow> (c_user_topic c, '':dart: **Final Answer:**'' @ nl @ nl @ s) \<in> set sent))
         else map_of acs' key = Some c)"
    by blast
  have "map_of acs' ''collaboration_plan_user_session:main'' = None \<and>
     (''user_session:main'', '':clipboard: **Response from Alice:**'' @ nl @ nl @ ''A'') \<in> set sent"
    using all [OF look] by (simp add: ex_session_def py_title_alice)
  with run act show ?thesis by blast
qed

text \<open>
  Claim C3. The count of distinct indices runs over every stored response, whatever its
  task: with one stored response of another task at index 0, the first result of a
  two-subtask query (index 1) already makes the count 2 and starts the synthesis of the
  query from that single result.
\<close>

theorem handle_agent_response_counts_other_tasks:
  "handle_agent_response (\<lambda>prompt system. Some ''Done. ok'') (\<lambda>names. names) 5
     \<lparr>rd_from_agent = ''alice'', rd_task_result = ''draft'',
       rd_original_task = \<lparr>t_task = Some ''write'', t_subtask_index = Some 1,
                            t_total_subtasks = Some 2, t_original_query = Some ''Q''\<rparr>,
       rd_user_topic = Some ''user_session:main''\<rparr>
     \<lparr>pending_responses = Some ex_pending, active_collaborations = None\<rparr>
   = Inr (\<lparr>pending_responses = Some ex_pending, active_collaborations = None\<rparr>,
      [(''user_session:main'', '':check: Alice completed their task''),
       (''user_session:main'',
        '':dart: All agents completed! :brain: Synthesizing 1 agent responses into final answer...''),
       (''user_session:main'', ''Done.'' @ nl @ ''ok''),
       (''user_session:main'', '':tada: **Complete!** 1 agents collaborated successfully.'')])"
  by code_simp

text \<open>
  The index-based synthesizer reports a completion service that returns nothing.
\<close>

lemma synthesize_responses_reports_failure:
  "synthesize_responses (\<lambda>prompt system. None) ''Q''
     \<lparr>pending_responses = Some [(''write_1'',
         \<lparr>p_from_agent = ''alice'', p_result = ''draft'',
           p_task = \<lparr>t_task = Some ''write'', t_subtask_index = Some 1,
                     t_total_subtasks = Some 2, t_original_query = Some ''Q''\<rparr>,
           p_user_topic = ''user_session:main''\<rparr>)],
       active_collaborations = None\<rparr>
   = Inr (\<lparr>pending_responses = Some [], active_collaborations = None\<rparr>,
      [(''user_session:main'',
        '':dart: All agents completed! :brain: Synthesizing 1 agent responses into final answer...''),
       (''user_session:main'',
        ''I received responses from multiple agents but couldn't synthesize them properly.'')])"
  by code_simp

text \<open>
  Claim C6. With two responses and a completion service that returns nothing,
  \<open>_synthesize_collaboration_responses\<close> sends the progress notice and nothing else;
  the message that \<open>_synthesize_responses\<close> sends in that case has no counterpart here.
\<close>

theorem synthesize_collaboration_responses_silent:
  "synthesize_collaboration_responses (\<lambda>prompt system. None)
      (ex_session [\<lparr>r_from_agent = ''alice'', r_result = ''A'', r_task = ex_task\<rparr>,
                   \<lparr>r_from_agent = ''bob'', r_result = ''B'', r_task = ex_task\<rparr>])
   = [(''user_session:main'', '':brain: Synthesizing 2 agent responses...'')]"
  by (simp add: ex_session_def synthesize_collaboration_responses_def truthy_def str_nat_2)

text \<open>
  Claim C7. When no stored response carries the original query, \<open>_synthesize_responses\<close>
  returns without raising, sends nothing and leaves the assistant, and so the
  pending-response index, as it was.
\<close>

theorem synthesize_responses_no_contributions:
  assumes "pending_responses self = Some pending"
    and "\<forall>(k, p) \<in> set pending. get_str (t_original_query (p_task p)) [] \<noteq> original_query"
  shows "synthesize_responses gc original_query self = Inr (self, [])"
proof -
  have "filter (\<lambda>(k, p). stored_original_query p = original_query) pending = []"
    using assms(2) by (auto simp: filter_empty_conv stored_original_query_def)
  then show ?thesis
    using assms(1) by (simp add: synthesize_responses_def)
qed

theorem synthesize_responses_no_contributions_witness:
  "synthesize_responses (\<lambda>prompt system. Some ''text'') ''Q''
     \<lparr>pending_responses = Some ex_pending, active_collaborations = None\<rparr>
   = Inr (\<lparr>pending_responses = Some ex_pending, active_collaborations = None\<rparr>, [])"
  using synthesize_responses_no_contributions
    [where self = "\<lparr>pending_responses = Some ex_pending, active_collaborations = None\<rparr>"
       and pending = ex_pending and original_query = "''Q''"
       and gc = "\<lambda>prompt system. Some ''text''"]
  by (simp add: ex_pending_def get_str_def)

subsection \<open>Task decomposition\<close>

lemma two_subtasks_shape:
  "map st_dependencies (two_subtasks agents complex_task) = [Some [], Some [0]]"
  by (simp add: two_subtasks_def full_subtask_def Let_def case_prod_beta)

lemma three_subtasks_shape:
  "map st_dependencies (three_subtasks agents complex_task) = [Some [], Some [0], Some [1]]"
  by (simp add: three_subtasks_def three_subtask_list_def full_subtask_def Let_def case_prod_beta)

lemma research_has_keyword: "has_complex_keywords ''research AI''"
  by code_simp

lemma research_two_words: "length (py_split ''research AI'') = 2"
  by code_simp

text \<open>
  Claim C4, as stated, fails when the completion service is unavailable: for the task
  \<open>research AI\<close>, which has a complex keyword, the claim gives two subtasks, and the
  fallback for an empty completion result, which looks at the word count only, gives one.
\<close>

theorem decompose_task_unavailable_one_subtask:
  "has_complex_keywords ''research AI'' \<and>
   fst (decompose_task True None (\<lambda>text. JSONDecodeError) [] [] ''research AI'')
     = [full_subtask ''Handle this request: research AI'' ''general'' 5 []]"
  by (simp add: research_has_keyword decompose_task_def research_two_words truthy_def)

text \<open>
  Claim C4, amended. With an AI client: when the completion service returns a non-empty
  text that is not JSON, the fallback returns one subtask with empty dependencies for
  fewer than 8 words and no complex keyword, two subtasks (the second depending on
  index 0) for fewer than 15 words or a complex keyword, and otherwise three subtasks
  chained 0 to 1 to 2; when the service returns nothing, the fallback returns one
  subtask for fewer than 10 words, two for fewer than 20 and three otherwise, whatever
  the keywords.
\<close>

theorem decompose_task_fallback:
  assumes "ai"
  shows "let n = length (py_split complex_task);
             kw = has_complex_keywords complex_task;
             subtasks = fst (decompose_task ai result json_loads discovered available_agents
                               complex_task)
         in (truthy result \<and> json_loads (get_str result []) = JSONDecodeError \<longrightarrow>
               (n < 8 \<and> \<not> kw \<longrightarrow> subtasks = [full_subtask complex_task ''general'' 5 []]) \<and>
               (\<not> (n < 8 \<and> \<not> kw) \<and> (n < 15 \<or> kw) \<longrightarrow>
                  map st_dependencies subtasks = [Some [], Some [0]]) \<and>
               (n \<ge> 15 \<and> \<not> kw \<longrightarrow> map st_dependencies subtasks = [Some [], Some [0], Some [1]])) \<and>
            (\<not> truthy result \<longrightarrow>
               (n < 10 \<longrightarrow>
                  subtasks = [full_subtask (''Handle this request: '' @ complex_task) ''general'' 5 []]) \<and>
               (10 \<le> n \<and> n < 20 \<longrightarrow> map st_dependencies subtasks = [Some [], Some [0]]) \<and>
               (20 \<le> n \<longrightarrow> map st_dependencies subtasks = [Some [], Some [0], Some [1]]))"
  using assms
  by (simp add: decompose_task_def Let_def two_subtasks_shape three_subtasks_shape)

theorem decompose_task_fallback_witness:
  "fst (decompose_task True (Some ''not json'') (\<lambda>text. JSONDecodeError) [] [] ''research AI'')
     = [full_subtask ''Research and gather information about: research AI...'' ''research'' 5 [],
        full_subtask ''Create comprehensive response for: research AI...'' ''creative'' 4 [0]]"
  using decompose_task_fallback [where ai = True and complex_task = "''research AI''" and result = "Some ''not json''"
       and json_loads = "\<lambda>text. JSONDecodeError" and discovered = "[]"
       and available_agents = "[]"]
  by (simp add: research_has_keyword decompose_task_def research_two_words truthy_def two_subtasks_def ensure_agents_def)

subsection \<open>Mention extraction\<close>

text \<open>The examples of the specification hold.\<close>

lemma extract_mentions_examples:
  "extract_mentions [''bob''] ''@bob hello'' = ([''bob''], ''hello'')"
  "extract_mentions [''bob''] ''contact user@example.com'' = ([], ''contact user@example.com'')"
  "extract_mentions [''bob''] ''@unknown hi'' = ([], ''@unknown hi'')"
  "extract_mentions [''alice'', ''bob''] ''@alice @bob do X'' = ([''alice'', ''bob''], ''do X'')"
  by code_simp+

text \<open>
  Claim C5. The pattern that strips the accepted names has no boundary after the name:
  with only bob registered, the token \<open>@bobby\<close> is not returned, and yet its first
  four characters are stripped.
\<close>

theorem extract_mentions_strips_unregistered:
  "extract_mentions [''bob''] ''@bob @bobby hi'' = ([''bob''], ''by hi'')"
  by code_simp

subsection \<open>Duplicate suppression\<close>

lemma min_entry_mem: "min_entry best xs \<in> set (best # xs)"
  by (induction xs arbitrary: best) auto

lemma min_entry_le: "y \<in> set (best # xs) \<Longrightarrow> snd (min_entry best xs) \<le> snd y"
proof (induction xs arbitrary: best y)
  case Nil
  then show ?case by simp
next
  case (Cons x xs)
  have step: "snd (min_entry (if snd x < snd best then x else best) xs)
                \<le> snd (if snd x < snd best then x else best)"
    using Cons.IH [of "if snd x < snd best then x else best" "if snd x < snd best then x else best"]
    by simp
  from Cons.prems consider "y = best" | "y = x" | "y \<in> set xs" by auto
  then show ?case
  proof cases
    case 1
    with step show ?thesis by (simp split: if_splits)
  next
    case 2
    with step show ?thesis by (simp split: if_splits)
  next
    case 3
    then show ?thesis by (simp add: Cons.IH)
  qed
qed

lemma min_entry_snoc:
  "min_entry best (xs @ [x]) =
     (if snd x < snd (min_entry best xs) then x else min_entry best xs)"
  by (induction xs arbitrary: best) simp_all

lemma oldest_key_least:
  assumes "d \<noteq> []"
  shows "\<exists>t. (oldest_key d, t) \<in> set d \<and> (\<forall>y \<in> set d. t \<le> snd y)"
proof -
  from assms obtain kv rest where d: "d = kv # rest" by (cases d) auto
  let ?m = "min_entry kv rest"
  have "(fst ?m, snd ?m) \<in> set d"
    using min_entry_mem [of kv rest] d by simp
  moreover have "\<forall>y \<in> set d. snd ?m \<le> snd y"
    using min_entry_le [of _ kv rest] d by simp
  moreover have "oldest_key d = fst ?m"
    unfolding oldest_key_def d by simp
  ultimately show ?thesis
    by (intro exI [of _ "snd ?m"]) simp
qed

lemma oldest_key_snoc:
  assumes "d \<noteq> []" and "\<forall>y \<in> set d. snd y \<le> t"
  shows "oldest_key (d @ [(h, t)]) = oldest_key d"
proof -
  from assms(1) obtain kv rest where d: "d = kv # rest" by (cases d) auto
  have "min_entry kv rest \<in> set d"
    using min_entry_mem [of kv rest] d by simp
  then have "snd (min_entry kv rest) \<le> t"
    using assms(2) by blast
  then show ?thesis
    unfolding oldest_key_def d by (simp add: min_entry_snoc)
qed

lemma update_absent: "k \<notin> fst ` set al \<Longrightarrow> AList.update k v al = al @ [(k, v)]"
  by (induction al) auto

lemma set_update_subset: "set (AList.update k v al) \<subseteq> insert (k, v) (set al)"
  by (induction al) auto

lemma length_delete_present:
  "k \<in> fst ` set al \<Longrightarrow> length (AList.delete k al) < length al"
proof (induction al)
  case Nil
  then show ?case by simp
next
  case (Cons p al)
  show ?case
  proof (cases "fst p = k")
    case True
    then show ?thesis by (simp add: less_Suc_eq_le length_delete_le)
  next
    case False
    with Cons.prems have "k \<in> fst ` set al" by auto
    with Cons.IH False show ?thesis by simp
  qed
qed

lemma length_update_alist:
  "length (AList.update k v al) = (if k \<in> fst ` set al then length al else Suc (length al))"
  by (induction al) auto

lemma set_delete_subset: "set (AList.delete k al) \<subseteq> set al"
  by (induction al) auto

lemma handle_natural_conversation_cached:
  assumes "\<not> (0 < (case cd_timestamp cd of None \<Rightarrow> 0 | Some t \<Rightarrow> t)
             \<and> (case cd_timestamp cd of None \<Rightarrow> 0 | Some t \<Rightarrow> t) < w_startup_time s)"
    and "w_recent_messages s = Some d"
    and "map_of d (py_hash (dedup_text cd)) = Some t1"
  shows "(t2 - t1 < 5 \<longrightarrow> handle_natural_conversation py_hash t2 cd s = (Ignored_duplicate, s)) \<and>
         (5 \<le> t2 - t1 \<longrightarrow> fst (handle_natural_conversation py_hash t2 cd s) = Processed)"
  using assms by (auto simp: handle_natural_conversation_def Let_def)

lemma handle_natural_conversation_processed:
  assumes ok: "recent_messages_ok t1 self"
    and first: "handle_natural_conversation py_hash t1 cd self = (Processed, self1)"
  shows "recent_messages_ok t1 self1 \<and> w_startup_time self1 = w_startup_time self \<and>
         (\<exists>d. w_recent_messages self1 = Some d \<and> map_of d (py_hash (dedup_text cd)) = Some t1 \<and>
              (\<forall>k t. map_of (AList.update (py_hash (dedup_text cd)) t1
                          (case w_recent_messages self of None \<Rightarrow> [] | Some d0 \<Rightarrow> d0)) k = Some t
                       \<and> map_of d k = None
                    \<longrightarrow> (\<forall>kv \<in> set (AList.update (py_hash (dedup_text cd)) t1
                          (case w_recent_messages self of None \<Rightarrow> [] | Some d0 \<Rightarrow> d0)). t \<le> snd kv)))"
proof -
  define h where "h = py_hash (dedup_text cd)"
  define recent0 where "recent0 = (case w_recent_messages self of None \<Rightarrow> [] | Some d0 \<Rightarrow> d0)"
  define recent1 where "recent1 = AList.update h t1 recent0"
  define recent2 where
    "recent2 = (if length recent1 > 50 then AList.delete (oldest_key recent1) recent1 else recent1)"
  have self1: "self1 = self\<lparr>w_recent_messages := Some recent2\<rparr>"
    using first unfolding handle_natural_conversation_def Let_def h_def recent0_def recent1_def recent2_def
    by (auto split: if_splits)
  have d0: "distinct (map fst recent0)" and l0: "length recent0 \<le> 50"
    and b0: "\<forall>kv \<in> set recent0. snd kv \<le> t1"
    using ok unfolding recent_messages_ok_def recent0_def by (auto split: option.splits)
  have d1: "distinct (map fst recent1)"
    unfolding recent1_def using d0 by (rule distinct_update)
  have b1: "\<forall>kv \<in> set recent1. snd kv \<le> t1"
    using set_update_subset [of h t1 recent0] b0 unfolding recent1_def by auto
  have m1: "map_of recent1 h = Some t1"
    unfolding recent1_def by (simp add: update_conv')
  have l1: "length recent1 \<le> 51"
    unfolding recent1_def using l0 by (simp add: length_update_alist)
  have main: "distinct (map fst recent2) \<and> length recent2 \<le> 50 \<and> (\<forall>kv \<in> set recent2. snd kv \<le> t1)
      \<and> map_of recent2 h = Some t1
      \<and> (\<forall>k t. map_of recent1 k = Some t \<and> map_of recent2 k = None
            \<longrightarrow> (\<forall>kv \<in> set recent1. t \<le> snd kv))"
  proof (cases "length recent1 > 50")
    case False
    then have same: "recent2 = recent1" by (simp add: recent2_def)
    have "\<forall>k t. map_of recent1 k = Some t \<and> map_of recent2 k = None
            \<longrightarrow> (\<forall>kv \<in> set recent1. t \<le> snd kv)"
      unfolding same by auto
    moreover have "length recent2 \<le> 50"
      using False same by simp
    ultimately show ?thesis
      using d1 b1 m1 unfolding same by blast
  next
    case True
    then have r2: "recent2 = AList.delete (oldest_key recent1) recent1"
      by (simp add: recent2_def)
    have absent: "h \<notin> fst ` set recent0"
      using True l0 unfolding recent1_def by (auto simp: length_update_alist split: if_splits)
    then have snoc: "recent1 = recent0 @ [(h, t1)]"
      unfolding recent1_def by (rule update_absent)
    have ne0: "recent0 \<noteq> []"
      using True snoc by auto
    have old: "oldest_key recent1 = oldest_key recent0"
      unfolding snoc using ne0 b0 by (rule oldest_key_snoc)
    obtain t0 where t0: "(oldest_key recent0, t0) \<in> set recent0"
      using oldest_key_least [OF ne0] by blast
    then have neq: "oldest_key recent1 \<noteq> h"
      using absent old by (metis fst_conv image_eqI)
    have ne1: "recent1 \<noteq> []"
      using snoc by simp
    obtain tm where tm: "(oldest_key recent1, tm) \<in> set recent1"
      and least: "\<forall>y \<in> set recent1. tm \<le> snd y"
      using oldest_key_least [OF ne1] by blast
    have present: "oldest_key recent1 \<in> fst ` set recent1"
      using tm by (metis fst_conv image_eqI)
    have "length recent2 < length recent1"
      unfolding r2 using present by (rule length_delete_present)
    with l1 have l2: "length recent2 \<le> 50" by simp
    have d2: "distinct (map fst recent2)"
      unfolding r2 using d1 by (rule distinct_delete)
    have b2: "\<forall>kv \<in> set recent2. snd kv \<le> t1"
      using set_delete_subset [of "oldest_key recent1" recent1] b1 unfolding r2 by auto
    have m2: "map_of recent2 h = Some t1"
      unfolding r2 using m1 neq by (simp add: delete_conv')
    have ev: "\<forall>kv \<in> set recent1. t \<le> snd kv"
      if "map_of recent1 k = Some t" "map_of recent2 k = None" for k t
    proof -
      have "k = oldest_key recent1"
        using that unfolding r2 by (auto simp: delete_conv' split: if_splits)
      moreover have "map_of recent1 (oldest_key recent1) = Some tm"
        using d1 tm by simp
      ultimately have "t = tm" using that(1) by simp
      with least show ?thesis by simp
    qed
    from d2 l2 b2 m2 ev show ?thesis by blast
  qed
  have ok1: "recent_messages_ok t1 self1"
    unfolding recent_messages_ok_def self1 using main by simp
  have st: "w_startup_time self1 = w_startup_time self"
    unfolding self1 by simp
  have ex: "\<exists>d. w_recent_messages self1 = Some d \<and> map_of d h = Some t1 \<and>
              (\<forall>k t. map_of recent1 k = Some t \<and> map_of d k = None
                    \<longrightarrow> (\<forall>kv \<in> set recent1. t \<le> snd kv))"
    unfolding self1 using main by simp
  from ok1 st ex show ?thesis
    unfolding h_def recent1_def recent0_def by blast
qed

lemma handle_natural_conversation_ok:
  assumes ok: "recent_messages_ok t1 self"
  shows "recent_messages_ok t1 (snd (handle_natural_conversation py_hash t1 cd self))"
proof (cases "handle_natural_conversation py_hash t1 cd self")
  case (Pair outcome self1)
  show ?thesis
  proof (cases outcome)
    case Processed
    with Pair ok show ?thesis
      using handle_natural_conversation_processed [of t1 self py_hash cd self1] by simp
  next
    case Ignored_old
    with Pair have "self1 = self"
      by (auto simp: handle_natural_conversation_def Let_def split: if_splits)
    with Pair ok show ?thesis by simp
  next
    case Ignored_duplicate
    with Pair have "self1 = self"
      by (auto simp: handle_natural_conversation_def Let_def split: if_splits option.splits)
    with Pair ok show ?thesis by simp
  qed
qed

text \<open>
  Claim C8, as stated, fails for a pair that 50 other messages separate: conversation 0
  is processed at time 0, the fifty conversations that follow evict its entry, and the
  same conversation at time 2 is processed again.
\<close>

theorem handle_natural_conversation_evicted_duplicate:
  "hd ex_burst = (0, ex_conversation 0) \<and> last ex_burst = (2, ex_conversation 0) \<and>
   (let hs = fst (run_conversations (\<lambda>s. int (length s)) ex_burst
                    \<lparr>w_startup_time = 0, w_recent_messages = None\<rparr>)
    in length hs = 52 \<and> hd hs = Processed \<and> last hs = Processed)"
  by code_simp

text \<open>
  Claim C8, amended. Let the cache satisfy its invariant when a message is handled at
  time \<open>t1\<close>. Then it satisfies it afterwards, so it never holds more than 50 entries.
  If the message is processed, then a message with the same sender, text and context
  that is not older than the startup and is handled at time \<open>t2\<close> next, or in any later
  state whose cache still maps the hash to \<open>t1\<close>, is suppressed with the state
  unchanged when \<open>t2 - t1 < 5\<close> and processed when \<open>t2 - t1 \<ge> 5\<close>; and an entry that
  the processing drops from the cache has the least last-seen time.
\<close>

theorem handle_natural_conversation_dedup:
  assumes ok: "recent_messages_ok t1 self"
    and sender: "cd_from_agent cd2 = cd_from_agent cd1"
    and body: "extract_message cd2 = extract_message cd1"
    and ctx: "get_str (cd_context cd2) [] = get_str (cd_context cd1) []"
    and fresh: "\<not> (0 < (case cd_timestamp cd2 of None \<Rightarrow> 0 | Some t \<Rightarrow> t)
                \<and> (case cd_timestamp cd2 of None \<Rightarrow> 0 | Some t \<Rightarrow> t) < w_startup_time self)"
  shows "recent_messages_ok t1 (snd (handle_natural_conversation py_hash t1 cd1 self)) \<and>
    (\<forall>self1. handle_natural_conversation py_hash t1 cd1 self = (Processed, self1) \<longrightarrow>
       (t2 - t1 < 5 \<longrightarrow>
          handle_natural_conversation py_hash t2 cd2 self1 = (Ignored_duplicate, self1)) \<and>
       (5 \<le> t2 - t1 \<longrightarrow>
          fst (handle_natural_conversation py_hash t2 cd2 self1) = Processed) \<and>
       (\<forall>(s::worker) d. w_startup_time s = w_startup_time self \<and> w_recent_messages s = Some d
                \<and> map_of d (py_hash (dedup_text cd1)) = Some t1 \<longrightarrow>
          (t2 - t1 < 5 \<longrightarrow> handle_natural_conversation py_hash t2 cd2 s = (Ignored_duplicate, s)) \<and>
          (5 \<le> t2 - t1 \<longrightarrow> fst (handle_natural_conversation py_hash t2 cd2 s) = Processed)) \<and>
       (\<exists>d. w_recent_messages self1 = Some d \<and> length d \<le> 50 \<and>
          (\<forall>k t. map_of (AList.update (py_hash (dedup_text cd1)) t1
                      (case w_recent_messages self of None \<Rightarrow> [] | Some d0 \<Rightarrow> d0)) k = Some t
                   \<and> map_of d k = None
                \<longrightarrow> (\<forall>kv \<in> set (AList.update (py_hash (dedup_text cd1)) t1
                      (case w_recent_messages self of None \<Rightarrow> [] | Some d0 \<Rightarrow> d0)). t \<le> snd kv))))"
proof (intro conjI allI impI)
  show "recent_messages_ok t1 (snd (handle_natural_conversation py_hash t1 cd1 self))"
    using ok by (rule handle_natural_conversation_ok)
next
  have same: "dedup_text cd2 = dedup_text cd1"
    using sender body ctx by (simp add: dedup_text_def)
  have cached: "(t2 - t1 < 5 \<longrightarrow> handle_natural_conversation py_hash t2 cd2 s = (Ignored_duplicate, s)) \<and>
         (5 \<le> t2 - t1 \<longrightarrow> fst (handle_natural_conversation py_hash t2 cd2 s) = Processed)"
    if "w_startup_time s = w_startup_time self" "w_recent_messages s = Some d"
      "map_of d (py_hash (dedup_text cd1)) = Some t1" for s :: worker and d
    using handle_natural_conversation_cached [of cd2 s d py_hash t1 t2] that fresh same by simp
  fix self1
  assume first: "handle_natural_conversation py_hash t1 cd1 self = (Processed, self1)"
  from handle_natural_conversation_processed [OF ok first]
  obtain d where ok1: "recent_messages_ok t1 self1"
    and st: "w_startup_time self1 = w_startup_time self"
    and d: "w_recent_messages self1 = Some d" "map_of d (py_hash (dedup_text cd1)) = Some t1"
    and ev: "\<forall>k t. map_of (AList.update (py_hash (dedup_text cd1)) t1
                          (case w_recent_messages self of None \<Rightarrow> [] | Some d0 \<Rightarrow> d0)) k = Some t
                       \<and> map_of d k = None
                    \<longrightarrow> (\<forall>kv \<in> set (AList.update (py_hash (dedup_text cd1)) t1
                          (case w_recent_messages self of None \<Rightarrow> [] | Some d0 \<Rightarrow> d0)). t \<le> snd kv)"
    by blast
  have len: "length d \<le> 50"
    using ok1 d(1) by (simp add: recent_messages_ok_def)
  {
    assume "t2 - t1 < 5"
    then show "handle_natural_conversation py_hash t2 cd2 self1 = (Ignored_duplicate, self1)"
      using cached [OF st d] by simp
  }
  {
    assume "5 \<le> t2 - t1"
    then show "fst (handle_natural_conversation py_hash t2 cd2 self1) = Processed"
      using cached [OF st d] by simp
  }
  {
    fix s :: worker and d'
    assume a: "w_startup_time s = w_startup_time self \<and> w_recent_messages s = Some d'
                \<and> map_of d' (py_hash (dedup_text cd1)) = Some t1"
    {
      assume "t2 - t1 < 5"
      then show "handle_natural_conversation py_hash t2 cd2 s = (Ignored_duplicate, s)"
        using cached [of s d'] a by simp
    }
    {
      assume "5 \<le> t2 - t1"
      then show "fst (handle_natural_conversation py_hash t2 cd2 s) = Processed"
        using cached [of s d'] a by simp
    }
  }
  show "\<exists>d. w_recent_messages self1 = Some d \<and> length d \<le> 50 \<and>
          (\<forall>k t. map_of (AList.update (py_hash (dedup_text cd1)) t1
                      (case w_recent_messages self of None \<Rightarrow> [] | Some d0 \<Rightarrow> d0)) k = Some t
                   \<and> map_of d k = None
                \<longrightarrow> (\<forall>kv \<in> set (AList.update (py_hash (dedup_text cd1)) t1
                      (case w_recent_messages self of None \<Rightarrow> [] | Some d0 \<Rightarrow> d0)). t \<le> snd kv))"
    using d(1) len ev by blast
qed

theorem handle_natural_conversation_dedup_witness:
  "handle_natural_conversation (\<lambda>s. int (length s)) 0 (ex_conversation 3)
      \<lparr>w_startup_time = 0, w_recent_messages = None\<rparr>
     = (Processed, \<lparr>w_startup_time = 0, w_recent_messages = Some [(4, 0)]\<rparr>) \<and>
   handle_natural_conversation (\<lambda>s. int (length s)) 2 (ex_conversation 3)
      \<lparr>w_startup_time = 0, w_recent_messages = Some [(4, 0)]\<rparr>
     = (Ignored_duplicate, \<lparr>w_startup_time = 0, w_recent_messages = Some [(4, 0)]\<rparr>)"
proof -
  let ?self = "\<lparr>w_startup_time = 0, w_recent_messages = None\<rparr>"
  let ?self1 = "\<lparr>w_startup_time = 0, w_recent_messages = Some [(4, 0)]\<rparr>"
  let ?cd = "ex_conversation 3"
  have ok: "recent_messages_ok 0 ?self"
    by (simp add: recent_messages_ok_def)
  have fresh: "\<not> (0 < (case cd_timestamp ?cd of None \<Rightarrow> 0 | Some t \<Rightarrow> t)
                \<and> (case cd_timestamp ?cd of None \<Rightarrow> 0 | Some t \<Rightarrow> t) < w_startup_time ?self)"
    by (simp add: ex_conversation_def)
  have first: "handle_natural_conversation (\<lambda>s. int (length s)) 0 ?cd ?self = (Processed, ?self1)"
    by code_simp
  have "(2 - 0 < (5::real) \<longrightarrow>
          handle_natural_conversation (\<lambda>s. int (length s)) 2 ?cd ?self1 = (Ignored_duplicate, ?self1))"
    using handle_natural_conversation_dedup [OF ok refl refl refl fresh, of "\<lambda>s. int (length s)" 2]
      first by blast
  then have "handle_natural_conversation (\<lambda>s. int (length s)) 2 ?cd ?self1 = (Ignored_duplicate, ?self1)"
    by simp
  with first show ?thesis by simp
qed


end
